theory Spec2Isabelle
  imports Complex_Main
begin

section \<open>Exceptions\<close>

text \<open>
  The exceptions that the code of \<^verbatim>\<open>myshop/models.py\<close> raises, catches or lets pass.
  \<^verbatim>\<open>raise SmartPhoneModel.DoesNotExist(e)\<close> and \<^verbatim>\<open>raise CartItem.DoesNotExist(e)\<close> carry
  the exception they translate as their argument. Every \<^verbatim>\<open>DoesNotExist\<close> of a model class
  is a subclass of \<^verbatim>\<open>ObjectDoesNotExist\<close>.
\<close>

datatype error =
    KeyError string
  | AttributeError
  | MultipleObjectsReturned
  | SmartPhoneVariant_DoesNotExist
  | SmartPhoneModel_DoesNotExist error
  | CartItem_DoesNotExist error
  | OtherException string

fun is_ObjectDoesNotExist :: "error \<Rightarrow> bool" where
  "is_ObjectDoesNotExist SmartPhoneVariant_DoesNotExist = True"
| "is_ObjectDoesNotExist (SmartPhoneModel_DoesNotExist e) = True"
| "is_ObjectDoesNotExist (CartItem_DoesNotExist e) = True"
| "is_ObjectDoesNotExist e = False"

fun is_KeyError :: "error \<Rightarrow> bool" where
  "is_KeyError (KeyError k) = True"
| "is_KeyError e = False"

section \<open>Money\<close>

text \<open>
  A \<^verbatim>\<open>Money\<close> value is a decimal amount tagged with a currency code. The amount is
  optional: \<^verbatim>\<open>Money()\<close> is built without a value, and \<^verbatim>\<open>MoneyMaker(currency)(None)\<close>
  is built from the SQL \<^verbatim>\<open>NULL\<close> of an aggregate over no rows.
  \<^verbatim>\<open>SHOP_DEFAULT_CURRENCY\<close> is the constant of \<^verbatim>\<open>settings.py\<close>.
\<close>

record money =
  currency :: string
  amount :: "rat option"

definition SHOP_DEFAULT_CURRENCY :: string where
  "SHOP_DEFAULT_CURRENCY = ''EUR''"

definition MoneyMaker :: "string \<Rightarrow> rat option \<Rightarrow> money" where
  "MoneyMaker code v = \<lparr>currency = code, amount = v\<rparr>"

definition Money :: money where
  "Money = MoneyMaker SHOP_DEFAULT_CURRENCY None"

definition Decimal :: "money \<Rightarrow> rat option" where
  "Decimal m = amount m"

section \<open>Model classes\<close>

text \<open>
  \<^verbatim>\<open>Product\<close> is the polymorphic base; \<^verbatim>\<open>Commodity\<close>, \<^verbatim>\<open>SmartCard\<close> and
  \<^verbatim>\<open>SmartPhoneModel\<close> extend it. Field names that several classes declare are prefixed
  with the class. \<^verbatim>\<open>attr_price\<close> is the instance attribute \<^verbatim>\<open>_price\<close> of a
  \<^verbatim>\<open>SmartPhoneModel\<close>: \<open>None\<close> while \<^verbatim>\<open>hasattr(self, '_price')\<close> is false.
\<close>

record product =
  pk :: nat
  product_name :: string
  slug :: string
  manufacturer :: nat
  sort_order :: nat

record commodity = product +
  commodity_unit_price :: money
  commodity_product_code :: string
  commodity_quantity :: int

record smart_card = product +
  card_unit_price :: money
  card_type :: string
  speed :: string
  card_product_code :: string
  card_storage :: nat
  card_quantity :: int

record smart_phone_model = product +
  battery_type :: nat
  battery_capacity :: nat
  ram_storage :: nat
  wifi_connectivity :: nat
  bluetooth :: nat
  gps :: bool
  operating_system :: nat
  width :: rat
  height :: rat
  weight :: rat
  screen_size :: rat
  attr_price :: "money option"

text \<open>
  A row of \<^verbatim>\<open>SmartPhoneVariant\<close>: \<open>product_id\<close> is the foreign key \<^verbatim>\<open>product\<close>
  (related name \<^verbatim>\<open>variants\<close>).
\<close>

record smart_phone_variant =
  variant_id :: nat
  product_id :: nat
  product_code :: string
  unit_price :: money
  storage :: nat
  quantity :: int

datatype any_product =
    Commodity commodity
  | SmartCard smart_card
  | SmartPhoneModel smart_phone_model

fun product_pk :: "any_product \<Rightarrow> nat" where
  "product_pk (Commodity c) = pk c"
| "product_pk (SmartCard c) = pk c"
| "product_pk (SmartPhoneModel m) = pk m"

text \<open>
  A row of \<^verbatim>\<open>CartItem\<close> with its related product object; \<^verbatim>\<open>product_code\<close> is
  nullable there.
\<close>

record cart_item =
  cart_item_id :: nat
  cart_id :: nat
  cart_item_product :: any_product
  cart_item_product_code :: "string option"
  updated_at :: nat
  cart_item_extra :: string
  cart_item_quantity :: nat

record order_item =
  order_item_product_name :: "string option"
  order_item_product_code :: "string option"
  attr_unit_price :: "rat option"
  attr_line_total :: "rat option"
  order_item_quantity :: nat
  canceled :: bool

text \<open>The tables that the methods below query.\<close>

record database =
  variants :: "smart_phone_variant list"
  cart_items :: "cart_item list"

section \<open>Query sets\<close>

text \<open>
  The operations of the object-relational mapper that the methods call, on a query set
  given as the list of its rows:
  \<^item> \<^verbatim>\<open>exists()\<close>;
  \<^item> \<^verbatim>\<open>first()\<close>, which orders an unordered query set by primary key and yields
    \<^verbatim>\<open>None\<close> when there is no row;
  \<^item> \<^verbatim>\<open>aggregate(Min('unit_price'))\<close>, the SQL minimum, \<^verbatim>\<open>NULL\<close> over no value;
  \<^item> \<^verbatim>\<open>get(...)\<close>, which raises \<^verbatim>\<open>DoesNotExist\<close> on no match and
    \<^verbatim>\<open>MultipleObjectsReturned\<close> on several.
\<close>

definition qs_exists :: "'a list \<Rightarrow> bool" where
  "qs_exists qs = (qs \<noteq> [])"

definition qs_first :: "smart_phone_variant list \<Rightarrow> smart_phone_variant option" where
  "qs_first qs = (case sort_key variant_id qs of [] \<Rightarrow> None | v # _ \<Rightarrow> Some v)"

definition qs_aggregate_min :: "smart_phone_variant list \<Rightarrow> rat option" where
  "qs_aggregate_min qs =
     (case List.map_filter (\<lambda>v. amount (unit_price v)) qs of
        [] \<Rightarrow> None
      | a # as \<Rightarrow> Some (fold min as a))"

definition qs_get :: "(smart_phone_variant \<Rightarrow> bool) \<Rightarrow> smart_phone_variant list
    \<Rightarrow> error + smart_phone_variant" where
  "qs_get cond qs =
     (case filter cond qs of
        [] \<Rightarrow> Inl SmartPhoneVariant_DoesNotExist
      | [v] \<Rightarrow> Inr v
      | _ \<Rightarrow> Inl MultipleObjectsReturned)"

text \<open>\<^verbatim>\<open>self.variants\<close>: the rows whose foreign key points at \<open>self\<close>.\<close>

definition variants_of :: "smart_phone_model \<Rightarrow> database \<Rightarrow> smart_phone_variant list" where
  "variants_of self db = filter (\<lambda>v. product_id v = pk self) (variants db)"

section \<open>Prices\<close>

definition Commodity_get_price :: "commodity \<Rightarrow> 'r \<Rightarrow> money" where
  "Commodity_get_price self request = commodity_unit_price self"

definition SmartCard_get_price :: "smart_card \<Rightarrow> 'r \<Rightarrow> money" where
  "SmartCard_get_price self request = card_unit_price self"

definition SmartPhoneVariant_get_price :: "smart_phone_variant \<Rightarrow> 'r \<Rightarrow> money" where
  "SmartPhoneVariant_get_price self request = unit_price self"

text \<open>
  \<^verbatim>\<open>SmartPhoneModel.get_price\<close> returns the price and the instance, on which it has
  set \<^verbatim>\<open>_price\<close> when that attribute was missing.
\<close>

definition SmartPhoneModel_get_price ::
    "smart_phone_model \<Rightarrow> 'r \<Rightarrow> database \<Rightarrow> error + money \<times> smart_phone_model" where
  "SmartPhoneModel_get_price self request db =
     (case attr_price self of
        Some cached \<Rightarrow> Inr (cached, self)
      | None \<Rightarrow>
          if qs_exists (variants_of self db) then
            (case qs_first (variants_of self db) of
               None \<Rightarrow> Inl AttributeError
             | Some v \<Rightarrow>
                 let code = currency (unit_price v);
                     aggr = qs_aggregate_min (variants_of self db);
                     price = MoneyMaker code aggr
                 in Inr (price, self\<lparr>attr_price := Some price\<rparr>))
          else Inr (Money, self\<lparr>attr_price := Some Money\<rparr>))"

section \<open>Variants of a product\<close>

text \<open>
  Keyword arguments are a dictionary from names to values; a value is a string or
  \<^verbatim>\<open>None\<close>. \<^verbatim>\<open>kwargs.get(key)\<close> yields \<^verbatim>\<open>None\<close> for a missing key,
  \<^verbatim>\<open>kwargs[key]\<close> raises \<^verbatim>\<open>KeyError\<close>.
\<close>

type_synonym kwargs = "string \<rightharpoonup> string option"

definition kwargs_get :: "kwargs \<Rightarrow> string \<Rightarrow> string option" where
  "kwargs_get kwargs key = (case kwargs key of None \<Rightarrow> None | Some v \<Rightarrow> v)"

definition kwargs_item :: "kwargs \<Rightarrow> string \<Rightarrow> error + string option" where
  "kwargs_item kwargs key = (case kwargs key of None \<Rightarrow> Inl (KeyError key) | Some v \<Rightarrow> Inr v)"

text \<open>
  \<^verbatim>\<open>SmartPhoneModel.get_product_variant\<close>: only \<^verbatim>\<open>SmartPhoneVariant.DoesNotExist\<close>
  is caught and raised again as \<^verbatim>\<open>SmartPhoneModel.DoesNotExist\<close>. A lookup with
  \<^verbatim>\<open>product_code=None\<close> matches no row, the column being a string.
\<close>

definition SmartPhoneModel_get_product_variant ::
    "smart_phone_model \<Rightarrow> kwargs \<Rightarrow> database \<Rightarrow> error + smart_phone_variant" where
  "SmartPhoneModel_get_product_variant self kwargs db =
     (let code = kwargs_get kwargs ''product_code'' in
      case qs_get (\<lambda>v. Some (product_code v) = code) (variants_of self db) of
        Inl e \<Rightarrow>
          if e = SmartPhoneVariant_DoesNotExist then Inl (SmartPhoneModel_DoesNotExist e)
          else Inl e
      | Inr v \<Rightarrow> Inr v)"

text \<open>
  \<^verbatim>\<open>SmartPhoneModel.deduct_from_stock\<close> resolves the variant and calls the variant's
  own \<^verbatim>\<open>deduct_from_stock\<close>, a method of the commerce framework's
  \<^verbatim>\<open>AvailableProductMixin\<close>. That method is the parameter \<open>variant_deduct\<close>.
\<close>

type_synonym stock_hook = "smart_phone_variant \<Rightarrow> int \<Rightarrow> database \<Rightarrow> error + database"

definition SmartPhoneModel_deduct_from_stock ::
    "stock_hook \<Rightarrow> smart_phone_model \<Rightarrow> int \<Rightarrow> kwargs \<Rightarrow> database \<Rightarrow> error + database" where
  "SmartPhoneModel_deduct_from_stock variant_deduct self qty kwargs db =
     (case SmartPhoneModel_get_product_variant self kwargs db of
        Inl e \<Rightarrow> Inl e
      | Inr v \<Rightarrow> variant_deduct v qty db)"

text \<open>
  What a stock hook may touch: \<open>stock_only v db db'\<close> holds when \<open>db'\<close> differs from
  \<open>db\<close> at most in the quantity of the row with the primary key of \<open>v\<close>.
\<close>

definition stock_only :: "smart_phone_variant \<Rightarrow> database \<Rightarrow> database \<Rightarrow> bool" where
  "stock_only v db db' =
     (cart_items db' = cart_items db \<and>
      list_all2
        (\<lambda>w w'. if variant_id w = variant_id v then w' = w\<lparr>quantity := quantity w'\<rparr>
                 else w' = w)
        (variants db) (variants db'))"

definition hook_frame :: "stock_hook \<Rightarrow> bool" where
  "hook_frame variant_deduct =
     (\<forall>v qty db db'. variant_deduct v qty db = Inr db' \<longrightarrow> stock_only v db db')"

text \<open>
  \<^verbatim>\<open>SmartPhoneModel.is_in_cart\<close>: the loop over the filtered cart items returns the
  first one with the given code, and \<^verbatim>\<open>None\<close> when it runs out.
\<close>

fun first_with_code :: "string option \<Rightarrow> cart_item list \<Rightarrow> cart_item option" where
  "first_with_code code [] = None"
| "first_with_code code (ci # rest) =
     (if cart_item_product_code ci = code then Some ci else first_with_code code rest)"

definition SmartPhoneModel_is_in_cart ::
    "smart_phone_model \<Rightarrow> nat \<Rightarrow> bool \<Rightarrow> kwargs \<Rightarrow> database \<Rightarrow> cart_item option" where
  "SmartPhoneModel_is_in_cart self cart watched kwargs db =
     (case kwargs_item kwargs ''product_code'' of
        Inl e \<Rightarrow> None
      | Inr code \<Rightarrow>
          let cart_item_qs =
                filter (\<lambda>ci. cart_id ci = cart \<and> product_pk (cart_item_product ci) = pk self)
                  (cart_items db)
          in first_with_code code cart_item_qs)"

text \<open>
  \<^verbatim>\<open>get_product_variant\<close> on any product. \<^verbatim>\<open>Commodity\<close> and \<^verbatim>\<open>SmartCard\<close> do
  not override the hook of the framework's base product, which hands back the product
  itself; \<^verbatim>\<open>SmartPhoneModel\<close> overrides it as above.
\<close>

datatype product_variant =
    CommodityVariant commodity
  | SmartCardVariant smart_card
  | PhoneVariant smart_phone_variant

fun variant_unit_price :: "product_variant \<Rightarrow> money" where
  "variant_unit_price (CommodityVariant c) = commodity_unit_price c"
| "variant_unit_price (SmartCardVariant c) = card_unit_price c"
| "variant_unit_price (PhoneVariant v) = unit_price v"

fun get_product_variant :: "any_product \<Rightarrow> kwargs \<Rightarrow> database \<Rightarrow> error + product_variant" where
  "get_product_variant (Commodity c) kwargs db = Inr (CommodityVariant c)"
| "get_product_variant (SmartCard c) kwargs db = Inr (SmartCardVariant c)"
| "get_product_variant (SmartPhoneModel m) kwargs db =
     (case SmartPhoneModel_get_product_variant m kwargs db of
        Inl e \<Rightarrow> Inl e
      | Inr v \<Rightarrow> Inr (PhoneVariant v))"

section \<open>Order items\<close>

text \<open>
  \<^verbatim>\<open>OrderItem.populate_from_cart_item\<close> first runs the method it overrides, which
  belongs to the commerce framework and is the parameter \<open>super_populate\<close>: it may raise,
  or return with the order item and the database updated. Only the lookup of the variant
  and the assignment stand inside the \<^verbatim>\<open>try\<close> block.
\<close>

type_synonym 'r base_populate =
  "order_item \<Rightarrow> cart_item \<Rightarrow> 'r \<Rightarrow> database \<Rightarrow> error + order_item \<times> database"

definition OrderItem_populate_from_cart_item ::
    "'r base_populate \<Rightarrow> order_item \<Rightarrow> cart_item \<Rightarrow> 'r \<Rightarrow> database
      \<Rightarrow> error + order_item \<times> database" where
  "OrderItem_populate_from_cart_item super_populate self item request db =
     (case super_populate self item request db of
        Inl e \<Rightarrow> Inl e
      | Inr (self1, db1) \<Rightarrow>
          (case get_product_variant (cart_item_product item)
                  [''product_code'' \<mapsto> cart_item_product_code item] db1 of
             Inl e \<Rightarrow>
               if is_KeyError e \<or> is_ObjectDoesNotExist e then Inl (CartItem_DoesNotExist e)
               else Inl e
           | Inr v \<Rightarrow>
               Inr (self1\<lparr>attr_unit_price := Decimal (variant_unit_price v)\<rparr>, db1)))"

section \<open>The schema of the migration\<close>

text \<open>
  The column declarations of \<^verbatim>\<open>migrations/0001_initial.py\<close> for the tables with a
  product code. \<open>col\<close> gives a column the defaults of the field classes
  (\<^verbatim>\<open>primary_key=False\<close>, \<^verbatim>\<open>unique=False\<close>, \<^verbatim>\<open>null=False\<close>).
\<close>

datatype column_class =
    AutoField | CharField | MoneyField | PositiveIntegerField | ForeignKey
  | OneToOneField | PlaceholderField | JSONField | DateTimeField

record column =
  column_name :: string
  column_class :: column_class
  primary_key :: bool
  unique :: bool
  null_allowed :: bool

definition col :: "string \<Rightarrow> column_class \<Rightarrow> column" where
  "col name cls =
     \<lparr>column_name = name, column_class = cls, primary_key = False, unique = False,
      null_allowed = False\<rparr>"

definition SmartCard_columns :: "column list" where
  "SmartCard_columns =
     [(col ''product_ptr'' OneToOneField)\<lparr>primary_key := True\<rparr>,
      col ''unit_price'' MoneyField,
      col ''card_type'' CharField,
      col ''speed'' CharField,
      (col ''product_code'' CharField)\<lparr>unique := True\<rparr>,
      col ''storage'' PositiveIntegerField,
      col ''quantity'' PositiveIntegerField]"

definition CartItem_columns :: "column list" where
  "CartItem_columns =
     [(col ''id'' AutoField)\<lparr>primary_key := True\<rparr>,
      (col ''product_code'' CharField)\<lparr>null_allowed := True\<rparr>,
      col ''updated_at'' DateTimeField,
      col ''extra'' JSONField,
      col ''quantity'' PositiveIntegerField,
      col ''cart'' ForeignKey,
      col ''product'' ForeignKey]"

definition SmartPhoneVariant_columns :: "column list" where
  "SmartPhoneVariant_columns =
     [(col ''id'' AutoField)\<lparr>primary_key := True\<rparr>,
      (col ''product_code'' CharField)\<lparr>unique := True\<rparr>,
      col ''unit_price'' MoneyField,
      col ''storage'' PositiveIntegerField,
      col ''quantity'' PositiveIntegerField,
      col ''product'' ForeignKey]"

definition Commodity_columns :: "column list" where
  "Commodity_columns =
     [(col ''product_ptr'' OneToOneField)\<lparr>primary_key := True\<rparr>,
      col ''unit_price'' MoneyField,
      (col ''product_code'' CharField)\<lparr>unique := True\<rparr>,
      col ''quantity'' PositiveIntegerField,
      (col ''placeholder'' PlaceholderField)\<lparr>null_allowed := True\<rparr>]"

definition operations :: "(string \<times> column list) list" where
  "operations =
     [(''SmartCard'', SmartCard_columns),
      (''CartItem'', CartItem_columns),
      (''SmartPhoneVariant'', SmartPhoneVariant_columns),
      (''Commodity'', Commodity_columns)]"

text \<open>
  A database state gives every table its rows, a row giving every column a value. A
  state is valid for a schema when every column declared unique, or a primary key, holds
  no value twice (SQL lets \<^verbatim>\<open>NULL\<close> repeat) and every column not declared nullable
  holds no \<^verbatim>\<open>NULL\<close>.
\<close>

datatype sql_value = Null | IntV int | TextV string | DecV rat

type_synonym row = "string \<Rightarrow> sql_value"

type_synonym tables = "string \<Rightarrow> row list"

definition column_values :: "string \<Rightarrow> row list \<Rightarrow> sql_value list" where
  "column_values name rows = map (\<lambda>r. r name) rows"

definition column_ok :: "row list \<Rightarrow> column \<Rightarrow> bool" where
  "column_ok rows c =
     ((if unique c \<or> primary_key c
       then distinct (filter (\<lambda>x. x \<noteq> Null) (column_values (column_name c) rows))
       else True) \<and>
      (if null_allowed c then True else Null \<notin> set (column_values (column_name c) rows)))"

definition valid_state :: "(string \<times> column list) list \<Rightarrow> tables \<Rightarrow> bool" where
  "valid_state ops st = list_all (\<lambda>(name, columns). list_all (column_ok (st name)) columns) ops"

text \<open>The rows of the tables that \<open>database\<close> holds, and the validity of a \<open>database\<close>.\<close>

definition variant_row :: "smart_phone_variant \<Rightarrow> row" where
  "variant_row v = (\<lambda>name.
     if name = ''id'' then IntV (int (variant_id v))
     else if name = ''product_code'' then TextV (product_code v)
     else if name = ''unit_price'' then
       (case amount (unit_price v) of None \<Rightarrow> Null | Some a \<Rightarrow> DecV a)
     else if name = ''storage'' then IntV (int (storage v))
     else if name = ''quantity'' then IntV (quantity v)
     else if name = ''product'' then IntV (int (product_id v))
     else Null)"

definition cart_item_row :: "cart_item \<Rightarrow> row" where
  "cart_item_row ci = (\<lambda>name.
     if name = ''id'' then IntV (int (cart_item_id ci))
     else if name = ''product_code'' then
       (case cart_item_product_code ci of None \<Rightarrow> Null | Some code \<Rightarrow> TextV code)
     else if name = ''updated_at'' then IntV (int (updated_at ci))
     else if name = ''extra'' then TextV (cart_item_extra ci)
     else if name = ''quantity'' then IntV (int (cart_item_quantity ci))
     else if name = ''cart'' then IntV (int (cart_id ci))
     else if name = ''product'' then IntV (int (product_pk (cart_item_product ci)))
     else Null)"

definition database_tables :: "database \<Rightarrow> tables" where
  "database_tables db = (\<lambda>name.
     if name = ''SmartPhoneVariant'' then map variant_row (variants db)
     else if name = ''CartItem'' then map cart_item_row (cart_items db)
     else [])"

definition valid_database :: "database \<Rightarrow> bool" where
  "valid_database db = valid_state operations (database_tables db)"

section \<open>Sample data\<close>

text \<open>
  One smart phone with three variants priced 10, 8 and 12 in the same currency, a cart
  item for the second variant, and an empty order item.
\<close>

definition eur :: "rat \<Rightarrow> money" where
  "eur a = MoneyMaker ''EUR'' (Some a)"

definition phone :: smart_phone_model where
  "phone =
     \<lparr>pk = 1, product_name = ''Phone'', slug = ''phone'', manufacturer = 1, sort_order = 1,
      battery_type = 1, battery_capacity = 3000, ram_storage = 2048, wifi_connectivity = 1,
      bluetooth = 1, gps = True, operating_system = 1, width = 70, height = 140,
      weight = 150, screen_size = 5, attr_price = None\<rparr>"

definition variant_16 :: smart_phone_variant where
  "variant_16 =
     \<lparr>variant_id = 1, product_id = 1, product_code = ''sp-16'', unit_price = eur 10,
      storage = 16, quantity = 5\<rparr>"

definition variant_32 :: smart_phone_variant where
  "variant_32 =
     \<lparr>variant_id = 2, product_id = 1, product_code = ''sp-32'', unit_price = eur 8,
      storage = 32, quantity = 4\<rparr>"

definition variant_64 :: smart_phone_variant where
  "variant_64 =
     \<lparr>variant_id = 3, product_id = 1, product_code = ''sp-64'', unit_price = eur 12,
      storage = 64, quantity = 3\<rparr>"

definition cart_item_32 :: cart_item where
  "cart_item_32 =
     \<lparr>cart_item_id = 1, cart_id = 7, cart_item_product = SmartPhoneModel phone,
      cart_item_product_code = Some ''sp-32'', updated_at = 0, cart_item_extra = ''{}'',
      cart_item_quantity = 2\<rparr>"

definition shop_db :: database where
  "shop_db = \<lparr>variants = [variant_16, variant_32, variant_64], cart_items = [cart_item_32]\<rparr>"

definition new_order_item :: order_item where
  "new_order_item =
     \<lparr>order_item_product_name = None, order_item_product_code = None,
      attr_unit_price = None, attr_line_total = None, order_item_quantity = 0,
      canceled = False\<rparr>"

text \<open>
  A stock hook that lowers the quantity of the row it is given and saves that column, and
  an inherited populate step that copies code and quantity and leaves the database alone.
\<close>

definition lower_quantity :: stock_hook where
  "lower_quantity v qty db =
     Inr (db\<lparr>variants :=
            map (\<lambda>w. if variant_id w = variant_id v then w\<lparr>quantity := quantity v - qty\<rparr>
                      else w)
              (variants db)\<rparr>)"

definition copy_fields :: "unit base_populate" where
  "copy_fields self item request db =
     Inr (self\<lparr>order_item_product_code := cart_item_product_code item,
                order_item_quantity := cart_item_quantity item\<rparr>, db)"



section \<open>Facts about query sets\<close>

lemmas sample_defs = phone_def shop_db_def variant_16_def variant_32_def variant_64_def
  cart_item_32_def eur_def MoneyMaker_def variants_of_def

lemma qs_first_mem:
  assumes "qs \<noteq> []"
  shows "\<exists>v. qs_first qs = Some v \<and> v \<in> set qs \<and>
           (\<forall>w\<in>set qs. variant_id v \<le> variant_id w)"
proof -
  let ?s = "sort_key variant_id qs"
  have "length ?s = length qs" by simp
  with assms obtain v rest where s: "?s = v # rest" by (cases ?s) auto
  have "sorted (map variant_id ?s)" by (rule sorted_sort_key)
  with s have "\<forall>w\<in>set ?s. variant_id v \<le> variant_id w" by auto
  moreover have "set ?s = set qs" by simp
  moreover have "v \<in> set ?s" using s by simp
  ultimately show ?thesis by (auto simp: qs_first_def s)
qed

lemma fold_min_Min: "fold min as (a::rat) = Min (set (a # as))"
  by (simp only: Min.set_eq_fold)

lemma qs_aggregate_min_spec:
  assumes "qs \<noteq> []" and "\<forall>v\<in>set qs. amount (unit_price v) \<noteq> None"
  shows "\<exists>a. qs_aggregate_min qs = Some a \<and>
           (\<exists>v\<in>set qs. amount (unit_price v) = Some a) \<and>
           (\<forall>v\<in>set qs. \<forall>b. amount (unit_price v) = Some b \<longrightarrow> a \<le> b)"
proof -
  let ?xs = "List.map_filter (\<lambda>v. amount (unit_price v)) qs"
  have set_xs: "set ?xs = {a. \<exists>v\<in>set qs. amount (unit_price v) = Some a}"
    by (force simp: map_filter_def image_iff)
  from assms obtain v0 a0 where "v0 \<in> set qs" "amount (unit_price v0) = Some a0"
    by (cases qs) auto
  then have "a0 \<in> set ?xs" using set_xs by blast
  then obtain a as where xs: "?xs = a # as" by (cases ?xs) auto
  let ?m = "fold min as a"
  have m: "?m = Min (set ?xs)" by (simp only: xs fold_min_Min)
  have "?m \<in> set ?xs" unfolding m by (rule Min_in) (simp_all add: xs)
  moreover have "\<And>b. b \<in> set ?xs \<Longrightarrow> ?m \<le> b" unfolding m by (rule Min_le) simp_all
  moreover have "qs_aggregate_min qs = Some ?m" by (simp add: qs_aggregate_min_def xs)
  ultimately show ?thesis unfolding set_xs by blast
qed

section \<open>The price of a smart phone model\<close>

text \<open>
  Claim C1, as amended. For a model with at least one variant whose unit prices are all
  stored: on an instance that holds no cached \<^verbatim>\<open>_price\<close>, \<^verbatim>\<open>get_price\<close> returns (and
  caches) a \<^verbatim>\<open>Money\<close> in the currency of the first variant, the one with the least
  primary key, whose amount is the minimum of the unit prices of the model's variants: it
  is the price of one of them and no variant is cheaper. On an instance that holds a
  cached \<^verbatim>\<open>_price\<close>, \<^verbatim>\<open>get_price\<close> returns that cached value and leaves the instance
  as it is.
\<close>

theorem get_price_minimum:
  assumes "variants_of m db \<noteq> []"
    and "\<forall>v\<in>set (variants_of m db). amount (unit_price v) \<noteq> None"
  shows "(attr_price m = None \<longrightarrow>
          (\<exists>v0 a.
            SmartPhoneModel_get_price m request db =
              Inr (\<lparr>currency = currency (unit_price v0), amount = Some a\<rparr>,
                   m\<lparr>attr_price :=
                       Some \<lparr>currency = currency (unit_price v0), amount = Some a\<rparr>\<rparr>) \<and>
            qs_first (variants_of m db) = Some v0 \<and>
            v0 \<in> set (variants_of m db) \<and>
            (\<forall>v\<in>set (variants_of m db). variant_id v0 \<le> variant_id v) \<and>
            (\<exists>v\<in>set (variants_of m db). amount (unit_price v) = Some a) \<and>
            (\<forall>v\<in>set (variants_of m db). \<forall>b. amount (unit_price v) = Some b \<longrightarrow> a \<le> b))) \<and>
         (\<forall>cached. attr_price m = Some cached \<longrightarrow>
            SmartPhoneModel_get_price m request db = Inr (cached, m))"
proof (intro conjI impI allI)
  assume fresh: "attr_price m = None"
  from qs_first_mem[OF assms(1)] obtain v0 where
    v0: "qs_first (variants_of m db) = Some v0" "v0 \<in> set (variants_of m db)"
      "\<forall>w\<in>set (variants_of m db). variant_id v0 \<le> variant_id w" by blast
  from qs_aggregate_min_spec[OF assms(1,2)] obtain a where
    a: "qs_aggregate_min (variants_of m db) = Some a"
      "\<exists>v\<in>set (variants_of m db). amount (unit_price v) = Some a"
      "\<forall>v\<in>set (variants_of m db). \<forall>b. amount (unit_price v) = Some b \<longrightarrow> a \<le> b" by blast
  have "SmartPhoneModel_get_price m request db =
        Inr (\<lparr>currency = currency (unit_price v0), amount = Some a\<rparr>,
             m\<lparr>attr_price := Some \<lparr>currency = currency (unit_price v0), amount = Some a\<rparr>\<rparr>)"
    using fresh assms(1) v0(1) a(1)
    by (simp add: SmartPhoneModel_get_price_def qs_exists_def MoneyMaker_def Let_def)
  with v0 a show "\<exists>v0 a.
            SmartPhoneModel_get_price m request db =
              Inr (\<lparr>currency = currency (unit_price v0), amount = Some a\<rparr>,
                   m\<lparr>attr_price :=
                       Some \<lparr>currency = currency (unit_price v0), amount = Some a\<rparr>\<rparr>) \<and>
            qs_first (variants_of m db) = Some v0 \<and>
            v0 \<in> set (variants_of m db) \<and>
            (\<forall>v\<in>set (variants_of m db). variant_id v0 \<le> variant_id v) \<and>
            (\<exists>v\<in>set (variants_of m db). amount (unit_price v) = Some a) \<and>
            (\<forall>v\<in>set (variants_of m db). \<forall>b. amount (unit_price v) = Some b \<longrightarrow> a \<le> b)"
    by blast
next
  fix cached
  assume "attr_price m = Some cached"
  then show "SmartPhoneModel_get_price m request db = Inr (cached, m)"
    by (simp add: SmartPhoneModel_get_price_def)
qed

text \<open>
  The variants priced 10, 8 and 12 in the same currency: a first call returns 8 in that
  currency and caches it, and a later call on the instance so updated returns the cached 8.
\<close>

theorem get_price_minimum_witness:
  "variants_of phone shop_db \<noteq> [] \<and> attr_price phone = None \<and>
   SmartPhoneModel_get_price phone () shop_db =
     Inr (eur 8, phone\<lparr>attr_price := Some (eur 8)\<rparr>) \<and>
   attr_price (phone\<lparr>attr_price := Some (eur 8)\<rparr>) = Some (eur 8) \<and>
   SmartPhoneModel_get_price (phone\<lparr>attr_price := Some (eur 8)\<rparr>) () shop_db =
     Inr (eur 8, phone\<lparr>attr_price := Some (eur 8)\<rparr>)"
proof -
  have ne: "variants_of phone shop_db \<noteq> []"
    by (simp add: sample_defs)
  have stored: "\<forall>v\<in>set (variants_of phone shop_db). amount (unit_price v) \<noteq> None"
    by (simp add: sample_defs)
  have ne': "variants_of (phone\<lparr>attr_price := Some (eur 8)\<rparr>) shop_db \<noteq> []"
    by (simp add: sample_defs)
  have stored': "\<forall>v\<in>set (variants_of (phone\<lparr>attr_price := Some (eur 8)\<rparr>) shop_db).
      amount (unit_price v) \<noteq> None"
    by (simp add: sample_defs)
  have first_call: "SmartPhoneModel_get_price phone () shop_db =
      Inr (eur 8, phone\<lparr>attr_price := Some (eur 8)\<rparr>)"
    using get_price_minimum [OF ne stored, of "()"]
    by (simp add: sample_defs SmartPhoneModel_get_price_def qs_exists_def qs_first_def
        qs_aggregate_min_def map_filter_def Let_def)
  from get_price_minimum [OF ne' stored', of "()"]
  have "\<forall>cached. attr_price (phone\<lparr>attr_price := Some (eur 8)\<rparr>) = Some cached \<longrightarrow>
      SmartPhoneModel_get_price (phone\<lparr>attr_price := Some (eur 8)\<rparr>) () shop_db =
        Inr (cached, phone\<lparr>attr_price := Some (eur 8)\<rparr>)"
    by (rule conjunct2)
  then have "attr_price (phone\<lparr>attr_price := Some (eur 8)\<rparr>) = Some (eur 8) \<longrightarrow>
      SmartPhoneModel_get_price (phone\<lparr>attr_price := Some (eur 8)\<rparr>) () shop_db =
        Inr (eur 8, phone\<lparr>attr_price := Some (eur 8)\<rparr>)"
    by (rule spec)
  moreover have cached: "attr_price (phone\<lparr>attr_price := Some (eur 8)\<rparr>) = Some (eur 8)"
    by simp
  ultimately have later_call:
    "SmartPhoneModel_get_price (phone\<lparr>attr_price := Some (eur 8)\<rparr>) () shop_db =
        Inr (eur 8, phone\<lparr>attr_price := Some (eur 8)\<rparr>)"
    by (rule mp)
  have fresh: "attr_price phone = None" by (simp add: phone_def)
  from ne fresh first_call cached later_call show ?thesis by simp
qed

text \<open>
  The claim as stated fails on an instance that holds a cached price. A first call, while
  the model has the one variant priced 10, caches 10 on the instance; with the variants
  priced 10, 8 and 12 the same instance still answers 10.
\<close>

theorem get_price_cached_counterexample:
  "SmartPhoneModel_get_price phone () (shop_db\<lparr>variants := [variant_16]\<rparr>) =
     Inr (eur 10, phone\<lparr>attr_price := Some (eur 10)\<rparr>) \<and>
   map unit_price (variants_of (phone\<lparr>attr_price := Some (eur 10)\<rparr>) shop_db) =
     [eur 10, eur 8, eur 12] \<and>
   SmartPhoneModel_get_price (phone\<lparr>attr_price := Some (eur 10)\<rparr>) () shop_db =
     Inr (eur 10, phone\<lparr>attr_price := Some (eur 10)\<rparr>) \<and>
   eur 10 \<noteq> eur 8"
  by (simp add: sample_defs SmartPhoneModel_get_price_def qs_exists_def qs_first_def
      qs_aggregate_min_def map_filter_def Let_def)

text \<open>
  Claim C7, as amended. For a model with no variants \<^verbatim>\<open>get_price\<close> does not fail. On
  an instance that holds no cached \<^verbatim>\<open>_price\<close> it returns (and caches) the default
  \<^verbatim>\<open>Money()\<close>; on an instance that holds one it returns the cached price.
\<close>

theorem get_price_no_variants:
  assumes "variants_of m db = []"
  shows "(\<exists>p m'. SmartPhoneModel_get_price m request db = Inr (p, m')) \<and>
         (attr_price m = None \<longrightarrow>
            SmartPhoneModel_get_price m request db =
              Inr (Money, m\<lparr>attr_price := Some Money\<rparr>)) \<and>
         (\<forall>cached. attr_price m = Some cached \<longrightarrow>
            SmartPhoneModel_get_price m request db = Inr (cached, m))"
  using assms
  by (cases "attr_price m") (simp_all add: SmartPhoneModel_get_price_def qs_exists_def)

theorem get_price_no_variants_witness:
  "variants_of phone (shop_db\<lparr>variants := []\<rparr>) = [] \<and>
   SmartPhoneModel_get_price phone () (shop_db\<lparr>variants := []\<rparr>) =
     Inr (\<lparr>currency = ''EUR'', amount = None\<rparr>,
          phone\<lparr>attr_price := Some \<lparr>currency = ''EUR'', amount = None\<rparr>\<rparr>)"
  using get_price_no_variants [of phone "shop_db\<lparr>variants := []\<rparr>" "()"]
  by (simp add: sample_defs Money_def SHOP_DEFAULT_CURRENCY_def)

text \<open>
  The claim as stated fails on an instance that holds a cached price. A first call, while
  the model has its three variants, caches 8 on the instance; once the variants are gone
  the same instance still answers 8, which is not \<^verbatim>\<open>Money()\<close>.
\<close>

theorem get_price_stale_counterexample:
  "SmartPhoneModel_get_price phone () shop_db =
     Inr (eur 8, phone\<lparr>attr_price := Some (eur 8)\<rparr>) \<and>
   variants_of (phone\<lparr>attr_price := Some (eur 8)\<rparr>) (shop_db\<lparr>variants := []\<rparr>) = [] \<and>
   SmartPhoneModel_get_price (phone\<lparr>attr_price := Some (eur 8)\<rparr>) ()
       (shop_db\<lparr>variants := []\<rparr>) =
     Inr (eur 8, phone\<lparr>attr_price := Some (eur 8)\<rparr>) \<and>
   eur 8 \<noteq> Money"
  by (simp add: sample_defs SmartPhoneModel_get_price_def qs_exists_def qs_first_def
      qs_aggregate_min_def map_filter_def Money_def Let_def)

text \<open>
  Claim C8. With the instance (its cached price included) and the database fixed, the
  price that \<^verbatim>\<open>get_price\<close> returns does not depend on the request, for each of
  \<^verbatim>\<open>Commodity\<close>, \<^verbatim>\<open>SmartCard\<close>, \<^verbatim>\<open>SmartPhoneVariant\<close> and \<^verbatim>\<open>SmartPhoneModel\<close>.
\<close>

theorem get_price_request_independent:
  "Commodity_get_price c r1 = Commodity_get_price c r2 \<and>
   SmartCard_get_price s r1 = SmartCard_get_price s r2 \<and>
   SmartPhoneVariant_get_price v r1 = SmartPhoneVariant_get_price v r2 \<and>
   SmartPhoneModel_get_price m r1 db = SmartPhoneModel_get_price m r2 db"
  by (simp add: Commodity_get_price_def SmartCard_get_price_def
      SmartPhoneVariant_get_price_def SmartPhoneModel_get_price_def)

section \<open>Facts about valid databases and lookups\<close>

lemma filter_key_unique:
  "distinct (map f xs) \<Longrightarrow> v \<in> set xs \<Longrightarrow> filter (\<lambda>w. f w = f v) xs = [v]"
proof (induction xs)
  case Nil then show ?case by simp
next
  case (Cons x xs)
  show ?case
  proof (cases "x = v")
    case True
    with Cons.prems have "\<forall>w\<in>set xs. f w \<noteq> f v" by (auto simp: image_iff)
    then have "filter (\<lambda>w. f w = f v) xs = []" by (simp add: filter_empty_conv)
    with True show ?thesis by simp
  next
    case False
    with Cons.prems have "v \<in> set xs" "f x \<noteq> f v" by auto
    with Cons show ?thesis by simp
  qed
qed

lemma valid_database_variants:
  assumes "valid_database db"
  shows "distinct (map product_code (variants db))"
    and "distinct (map variant_id (variants db))"
    and "\<forall>v\<in>set (variants db). amount (unit_price v) \<noteq> None"
proof -
  let ?rows = "map variant_row (variants db)"
  from assms have ok: "list_all (column_ok ?rows) SmartPhoneVariant_columns"
    by (simp add: valid_database_def valid_state_def operations_def database_tables_def)
  have code: "distinct (filter (\<lambda>x. x \<noteq> Null) (column_values ''product_code'' ?rows))"
    and key: "distinct (filter (\<lambda>x. x \<noteq> Null) (column_values ''id'' ?rows))"
    and price: "Null \<notin> set (column_values ''unit_price'' ?rows)"
    using ok by (simp_all add: SmartPhoneVariant_columns_def column_ok_def col_def)
  have c: "column_values ''product_code'' ?rows = map (\<lambda>v. TextV (product_code v)) (variants db)"
    by (simp add: column_values_def variant_row_def)
  have k: "column_values ''id'' ?rows = map (\<lambda>v. IntV (int (variant_id v))) (variants db)"
    by (simp add: column_values_def variant_row_def)
  have "distinct (map (\<lambda>v. TextV (product_code v)) (variants db))"
    using code unfolding c by (simp add: filter_map comp_def)
  then show "distinct (map product_code (variants db))"
    by (simp add: distinct_map inj_on_def)
  have "distinct (map (\<lambda>v. IntV (int (variant_id v))) (variants db))"
    using key unfolding k by (simp add: filter_map comp_def)
  then show "distinct (map variant_id (variants db))"
    by (simp add: distinct_map inj_on_def)
  show "\<forall>v\<in>set (variants db). amount (unit_price v) \<noteq> None"
  proof
    fix v assume "v \<in> set (variants db)"
    then have "variant_row v ''unit_price'' \<in> set (column_values ''unit_price'' ?rows)"
      by (simp add: column_values_def)
    with price have "variant_row v ''unit_price'' \<noteq> Null" by metis
    then show "amount (unit_price v) \<noteq> None"
      by (cases "amount (unit_price v)") (auto simp: variant_row_def)
  qed
qed

lemma qs_get_unique:
  assumes "distinct (map product_code qs)" and "v \<in> set qs"
  shows "qs_get (\<lambda>w. Some (product_code w) = Some (product_code v)) qs = Inr v"
  using filter_key_unique[OF assms] by (simp add: qs_get_def)

lemma qs_get_none:
  assumes "\<forall>w\<in>set qs. \<not> cond w"
  shows "qs_get cond qs = Inl SmartPhoneVariant_DoesNotExist"
proof -
  from assms have "filter cond qs = []" by (simp add: filter_empty_conv)
  then show ?thesis by (simp add: qs_get_def)
qed

lemma qs_get_Inr: "qs_get cond qs = Inr v \<Longrightarrow> v \<in> set qs \<and> cond v"
proof -
  assume a: "qs_get cond qs = Inr v"
  then have "filter cond qs = [v]"
    by (auto simp: qs_get_def split: list.splits)
  then have "v \<in> set (filter cond qs)" by simp
  then show ?thesis by simp
qed

lemma distinct_variants_of:
  "distinct (map product_code (variants db)) \<Longrightarrow> distinct (map product_code (variants_of m db))"
  by (simp add: variants_of_def distinct_map_filter)

lemma valid_shop_db: "valid_database shop_db"
  by (simp add: valid_database_def valid_state_def operations_def database_tables_def
      SmartPhoneVariant_columns_def CartItem_columns_def SmartCard_columns_def
      Commodity_columns_def column_ok_def col_def column_values_def variant_row_def
      cart_item_row_def sample_defs)

section \<open>Looking up a variant\<close>

text \<open>
  Claim C3. In a database that is valid for the schema, \<^verbatim>\<open>get_product_variant\<close> with
  product code \<open>c\<close> returns the variant of the model whose code is \<open>c\<close> when there is one,
  and raises \<^verbatim>\<open>SmartPhoneModel.DoesNotExist\<close>, built from the
  \<^verbatim>\<open>SmartPhoneVariant.DoesNotExist\<close> of the lookup, when the model has no such variant.
\<close>

theorem get_product_variant_lookup:
  assumes "valid_database db"
  shows "(\<forall>v\<in>set (variants_of m db). product_code v = c \<longrightarrow>
            SmartPhoneModel_get_product_variant m [''product_code'' \<mapsto> Some c] db = Inr v) \<and>
         ((\<forall>v\<in>set (variants_of m db). product_code v \<noteq> c) \<longrightarrow>
            SmartPhoneModel_get_product_variant m [''product_code'' \<mapsto> Some c] db =
              Inl (SmartPhoneModel_DoesNotExist SmartPhoneVariant_DoesNotExist))"
proof (intro conjI ballI impI)
  fix v assume v: "v \<in> set (variants_of m db)" "product_code v = c"
  have "distinct (map product_code (variants_of m db))"
    using valid_database_variants(1)[OF assms] by (rule distinct_variants_of)
  from qs_get_unique[OF this v(1)] v(2)
  show "SmartPhoneModel_get_product_variant m [''product_code'' \<mapsto> Some c] db = Inr v"
    by (simp add: SmartPhoneModel_get_product_variant_def kwargs_get_def)
next
  assume "\<forall>v\<in>set (variants_of m db). product_code v \<noteq> c"
  then have "qs_get (\<lambda>v. Some (product_code v) = Some c) (variants_of m db) =
      Inl SmartPhoneVariant_DoesNotExist"
    by (intro qs_get_none) simp
  then show "SmartPhoneModel_get_product_variant m [''product_code'' \<mapsto> Some c] db =
      Inl (SmartPhoneModel_DoesNotExist SmartPhoneVariant_DoesNotExist)"
    by (simp add: SmartPhoneModel_get_product_variant_def kwargs_get_def)
qed

theorem get_product_variant_lookup_witness:
  "valid_database shop_db \<and>
   SmartPhoneModel_get_product_variant phone [''product_code'' \<mapsto> Some ''sp-32''] shop_db =
     Inr variant_32 \<and>
   SmartPhoneModel_get_product_variant phone [''product_code'' \<mapsto> Some ''sp-128''] shop_db =
     Inl (SmartPhoneModel_DoesNotExist SmartPhoneVariant_DoesNotExist)"
  using get_product_variant_lookup [OF valid_shop_db, of phone "''sp-32''"]
    get_product_variant_lookup [OF valid_shop_db, of phone "''sp-128''"] valid_shop_db
  by (simp add: sample_defs)

section \<open>Cart items of a product\<close>

lemma first_with_code_Some:
  "first_with_code code items = Some ci \<Longrightarrow> ci \<in> set items \<and> cart_item_product_code ci = code"
  by (induction items) (auto split: if_splits)

lemma first_with_code_None:
  "(\<forall>ci\<in>set items. cart_item_product_code ci \<noteq> code) \<Longrightarrow> first_with_code code items = None"
  by (induction items) auto

text \<open>
  Claim C9. \<^verbatim>\<open>is_in_cart\<close> returns \<^verbatim>\<open>None\<close> when the keyword argument
  \<^verbatim>\<open>product_code\<close> is absent. When it is given, a cart item that is returned belongs to
  the given cart, refers to this product and carries the given product code, and the
  result is \<^verbatim>\<open>None\<close> when the cart holds no such item.
\<close>

theorem is_in_cart_result:
  "(kwargs ''product_code'' = None \<longrightarrow>
      SmartPhoneModel_is_in_cart self cart watched kwargs db = None) \<and>
   (\<forall>code. kwargs ''product_code'' = Some code \<longrightarrow>
      (\<forall>ci. SmartPhoneModel_is_in_cart self cart watched kwargs db = Some ci \<longrightarrow>
         ci \<in> set (cart_items db) \<and> cart_id ci = cart \<and>
         product_pk (cart_item_product ci) = pk self \<and>
         cart_item_product_code ci = code) \<and>
      ((\<forall>ci\<in>set (cart_items db).
          \<not> (cart_id ci = cart \<and> product_pk (cart_item_product ci) = pk self \<and>
             cart_item_product_code ci = code)) \<longrightarrow>
         SmartPhoneModel_is_in_cart self cart watched kwargs db = None))"
proof (intro conjI impI allI)
  assume "kwargs ''product_code'' = None"
  then show "SmartPhoneModel_is_in_cart self cart watched kwargs db = None"
    by (simp add: SmartPhoneModel_is_in_cart_def kwargs_item_def)
next
  fix code ci
  assume k: "kwargs ''product_code'' = Some code"
    and r: "SmartPhoneModel_is_in_cart self cart watched kwargs db = Some ci"
  let ?qs = "filter (\<lambda>ci. cart_id ci = cart \<and> product_pk (cart_item_product ci) = pk self)
               (cart_items db)"
  from k r have "first_with_code code ?qs = Some ci"
    by (simp add: SmartPhoneModel_is_in_cart_def kwargs_item_def)
  from first_with_code_Some[OF this]
  have "ci \<in> set ?qs" "cart_item_product_code ci = code" by simp_all
  then show "ci \<in> set (cart_items db)" "cart_id ci = cart"
    "product_pk (cart_item_product ci) = pk self" "cart_item_product_code ci = code"
    by simp_all
next
  fix code
  assume k: "kwargs ''product_code'' = Some code"
    and n: "\<forall>ci\<in>set (cart_items db).
          \<not> (cart_id ci = cart \<and> product_pk (cart_item_product ci) = pk self \<and>
             cart_item_product_code ci = code)"
  let ?qs = "filter (\<lambda>ci. cart_id ci = cart \<and> product_pk (cart_item_product ci) = pk self)
               (cart_items db)"
  from n have "\<forall>ci\<in>set ?qs. cart_item_product_code ci \<noteq> code" by auto
  from first_with_code_None[OF this] k
  show "SmartPhoneModel_is_in_cart self cart watched kwargs db = None"
    by (simp add: SmartPhoneModel_is_in_cart_def kwargs_item_def)
qed

theorem is_in_cart_result_witness:
  "SmartPhoneModel_is_in_cart phone 7 False Map.empty shop_db = None \<and>
   SmartPhoneModel_is_in_cart phone 7 False [''product_code'' \<mapsto> Some ''sp-32''] shop_db =
     Some cart_item_32 \<and>
   cart_item_32 \<in> set (cart_items shop_db) \<and> cart_id cart_item_32 = 7 \<and>
   product_pk (cart_item_product cart_item_32) = pk phone \<and>
   cart_item_product_code cart_item_32 = Some ''sp-32'' \<and>
   SmartPhoneModel_is_in_cart phone 7 False [''product_code'' \<mapsto> Some ''sp-64''] shop_db = None"
proof -
  have absent: "SmartPhoneModel_is_in_cart phone 7 False Map.empty shop_db = None"
    using is_in_cart_result [of Map.empty phone 7 False shop_db] by simp
  have found: "SmartPhoneModel_is_in_cart phone 7 False
      [''product_code'' \<mapsto> Some ''sp-32''] shop_db = Some cart_item_32"
    by (simp add: SmartPhoneModel_is_in_cart_def kwargs_item_def shop_db_def cart_item_32_def
        phone_def)
  let ?K = "[''product_code'' \<mapsto> Some ''sp-32'']"
  have key: "?K ''product_code'' = Some (Some ''sp-32'')" by simp
  from is_in_cart_result [of ?K phone 7 False shop_db]
  have "\<forall>code. ?K ''product_code'' = Some code \<longrightarrow>
      (\<forall>ci. SmartPhoneModel_is_in_cart phone 7 False ?K shop_db = Some ci \<longrightarrow>
         ci \<in> set (cart_items shop_db) \<and> cart_id ci = 7 \<and>
         product_pk (cart_item_product ci) = pk phone \<and>
         cart_item_product_code ci = code) \<and>
      ((\<forall>ci\<in>set (cart_items shop_db).
          \<not> (cart_id ci = 7 \<and> product_pk (cart_item_product ci) = pk phone \<and>
             cart_item_product_code ci = code)) \<longrightarrow>
         SmartPhoneModel_is_in_cart phone 7 False ?K shop_db = None)"
    by (rule conjunct2)
  then have "?K ''product_code'' = Some (Some ''sp-32'') \<longrightarrow>
      (\<forall>ci. SmartPhoneModel_is_in_cart phone 7 False ?K shop_db = Some ci \<longrightarrow>
         ci \<in> set (cart_items shop_db) \<and> cart_id ci = 7 \<and>
         product_pk (cart_item_product ci) = pk phone \<and>
         cart_item_product_code ci = Some ''sp-32'') \<and>
      ((\<forall>ci\<in>set (cart_items shop_db).
          \<not> (cart_id ci = 7 \<and> product_pk (cart_item_product ci) = pk phone \<and>
             cart_item_product_code ci = Some ''sp-32'')) \<longrightarrow>
         SmartPhoneModel_is_in_cart phone 7 False ?K shop_db = None)"
    by (rule spec)
  from this key have "(\<forall>ci. SmartPhoneModel_is_in_cart phone 7 False ?K shop_db = Some ci \<longrightarrow>
         ci \<in> set (cart_items shop_db) \<and> cart_id ci = 7 \<and>
         product_pk (cart_item_product ci) = pk phone \<and>
         cart_item_product_code ci = Some ''sp-32'') \<and>
      ((\<forall>ci\<in>set (cart_items shop_db).
          \<not> (cart_id ci = 7 \<and> product_pk (cart_item_product ci) = pk phone \<and>
             cart_item_product_code ci = Some ''sp-32'')) \<longrightarrow>
         SmartPhoneModel_is_in_cart phone 7 False ?K shop_db = None)"
    by (rule mp)
  then have "\<forall>ci. SmartPhoneModel_is_in_cart phone 7 False ?K shop_db = Some ci \<longrightarrow>
         ci \<in> set (cart_items shop_db) \<and> cart_id ci = 7 \<and>
         product_pk (cart_item_product ci) = pk phone \<and>
         cart_item_product_code ci = Some ''sp-32''"
    by (rule conjunct1)
  then have "SmartPhoneModel_is_in_cart phone 7 False ?K shop_db = Some cart_item_32 \<longrightarrow>
         cart_item_32 \<in> set (cart_items shop_db) \<and> cart_id cart_item_32 = 7 \<and>
         product_pk (cart_item_product cart_item_32) = pk phone \<and>
         cart_item_product_code cart_item_32 = Some ''sp-32''"
    by (rule spec)
  from this found have props: "cart_item_32 \<in> set (cart_items shop_db) \<and>
    cart_id cart_item_32 = 7 \<and>
    product_pk (cart_item_product cart_item_32) = pk phone \<and>
    cart_item_product_code cart_item_32 = Some ''sp-32''"
    by (rule mp)
  have other: "SmartPhoneModel_is_in_cart phone 7 False
      [''product_code'' \<mapsto> Some ''sp-64''] shop_db = None"
    by (simp add: SmartPhoneModel_is_in_cart_def kwargs_item_def shop_db_def cart_item_32_def
        phone_def)
  from absent found props other show ?thesis by simp
qed

section \<open>Populating an order item\<close>








text \<open>
  Claim C4. Whenever \<^verbatim>\<open>populate_from_cart_item\<close> succeeds, the unit price of the
  resulting order item is the unit price of the variant that the cart item's product code
  resolves to; for a smart phone that variant is a variant of the model with that code.
\<close>

theorem populate_copies_unit_price:
  assumes "OrderItem_populate_from_cart_item super_populate self item request db = Inr (self', db')"
  shows "\<exists>self1 v.
      super_populate self item request db = Inr (self1, db') \<and>
      get_product_variant (cart_item_product item)
        [''product_code'' \<mapsto> cart_item_product_code item] db' = Inr v \<and>
      self' = self1\<lparr>attr_unit_price := Decimal (variant_unit_price v)\<rparr> \<and>
      attr_unit_price self' = amount (variant_unit_price v) \<and>
      (\<forall>m. cart_item_product item = SmartPhoneModel m \<longrightarrow>
         (\<exists>w. v = PhoneVariant w \<and> w \<in> set (variants_of m db') \<and>
              Some (product_code w) = cart_item_product_code item))"
proof -
  from assms obtain self1 v where
    s: "super_populate self item request db = Inr (self1, db')"
    and g: "get_product_variant (cart_item_product item)
        [''product_code'' \<mapsto> cart_item_product_code item] db' = Inr v"
    and e: "self' = self1\<lparr>attr_unit_price := Decimal (variant_unit_price v)\<rparr>"
    by (auto simp: OrderItem_populate_from_cart_item_def split: sum.splits if_splits)
  have "\<forall>m. cart_item_product item = SmartPhoneModel m \<longrightarrow>
         (\<exists>w. v = PhoneVariant w \<and> w \<in> set (variants_of m db') \<and>
              Some (product_code w) = cart_item_product_code item)"
  proof (intro allI impI)
    fix m assume m: "cart_item_product item = SmartPhoneModel m"
    with g obtain w where w: "v = PhoneVariant w"
      "qs_get (\<lambda>v. Some (product_code v) = cart_item_product_code item) (variants_of m db') = Inr w"
      by (auto simp: SmartPhoneModel_get_product_variant_def kwargs_get_def
          split: sum.splits if_splits)
    from qs_get_Inr[OF w(2)] w(1)
    show "\<exists>w. v = PhoneVariant w \<and> w \<in> set (variants_of m db') \<and>
              Some (product_code w) = cart_item_product_code item" by blast
  qed
  with s g e show ?thesis by (simp add: Decimal_def)
qed

theorem populate_copies_unit_price_witness:
  "OrderItem_populate_from_cart_item copy_fields new_order_item cart_item_32 () shop_db =
     Inr (new_order_item\<lparr>order_item_product_code := Some ''sp-32'', order_item_quantity := 2,
            attr_unit_price := Some 8\<rparr>, shop_db) \<and>
   get_product_variant (cart_item_product cart_item_32)
     [''product_code'' \<mapsto> cart_item_product_code cart_item_32] shop_db = Inr (PhoneVariant variant_32) \<and>
   amount (unit_price variant_32) = Some 8"
  using populate_copies_unit_price [of copy_fields new_order_item cart_item_32 "()" shop_db
      "new_order_item\<lparr>order_item_product_code := Some ''sp-32'', order_item_quantity := 2,
            attr_unit_price := Some 8\<rparr>" shop_db]
  by (simp add: sample_defs copy_fields_def new_order_item_def OrderItem_populate_from_cart_item_def
      SmartPhoneModel_get_product_variant_def kwargs_get_def qs_get_def Decimal_def)

section \<open>Deducting from the stock\<close>

lemma distinct_map_eq:
  "distinct (map f xs) \<Longrightarrow> x \<in> set xs \<Longrightarrow> y \<in> set xs \<Longrightarrow> f x = f y \<Longrightarrow> x = y"
  by (auto simp: distinct_map dest: inj_onD)

lemma list_all2_cong_left:
  assumes "list_all2 P xs ys" and "\<And>x y. x \<in> set xs \<Longrightarrow> P x y \<Longrightarrow> Q x y"
  shows "list_all2 Q xs ys"
  using assms by (auto simp: list_all2_conv_all_nth)

lemma lower_quantity_frame: "hook_frame lower_quantity"
  unfolding hook_frame_def stock_only_def lower_quantity_def
  by (auto simp: list_all2_map2 intro!: list_all2_refl)

text \<open>
  Claim C5. In a database that is valid for the schema, for a product code \<open>c\<close> that
  names a variant \<open>v\<close> of the model, \<^verbatim>\<open>deduct_from_stock\<close> does what the stock hook of
  \<open>v\<close> does, which is code of the commerce framework. With a hook that changes no more
  than the quantity of the row it is given, every variant with another code is unchanged,
  the variant with code \<open>c\<close> changes in its quantity only, and the other table is
  unchanged. The method assigns nothing on the model instance.
\<close>

theorem deduct_from_stock_frame:
  assumes "valid_database db" and "v \<in> set (variants_of self db)" and "product_code v = c"
  shows "SmartPhoneModel_deduct_from_stock variant_deduct self qty
           [''product_code'' \<mapsto> Some c] db = variant_deduct v qty db \<and>
         (hook_frame variant_deduct \<longrightarrow>
            (\<forall>db'. SmartPhoneModel_deduct_from_stock variant_deduct self qty
                     [''product_code'' \<mapsto> Some c] db = Inr db' \<longrightarrow>
               cart_items db' = cart_items db \<and>
               list_all2
                 (\<lambda>w w'. if product_code w = c then w' = w\<lparr>quantity := quantity w'\<rparr>
                          else w' = w)
                 (variants db) (variants db')))"
proof (intro conjI impI allI)
  note ids = valid_database_variants(2)[OF assms(1)]
  note codes = valid_database_variants(1)[OF assms(1)]
  from assms(2) have vdb: "v \<in> set (variants db)" by (simp add: variants_of_def)
  have "qs_get (\<lambda>w. Some (product_code w) = Some (product_code v)) (variants_of self db) = Inr v"
    using distinct_variants_of[OF codes] assms(2) by (rule qs_get_unique)
  with assms(3) have
    g: "SmartPhoneModel_get_product_variant self [''product_code'' \<mapsto> Some c] db = Inr v"
    by (simp add: SmartPhoneModel_get_product_variant_def kwargs_get_def)
  then show run: "SmartPhoneModel_deduct_from_stock variant_deduct self qty
           [''product_code'' \<mapsto> Some c] db = variant_deduct v qty db"
    by (simp add: SmartPhoneModel_deduct_from_stock_def)
  have same: "\<And>w. w \<in> set (variants db) \<Longrightarrow>
      (variant_id w = variant_id v) = (product_code w = c)"
  proof -
    fix w assume w: "w \<in> set (variants db)"
    show "(variant_id w = variant_id v) = (product_code w = c)"
    proof
      assume "variant_id w = variant_id v"
      from distinct_map_eq[OF ids w vdb this] assms(3) show "product_code w = c" by simp
    next
      assume "product_code w = c"
      with assms(3) have "product_code w = product_code v" by simp
      from distinct_map_eq[OF codes w vdb this] show "variant_id w = variant_id v" by simp
    qed
  qed
  fix db'
  assume frame: "hook_frame variant_deduct"
    and ok: "SmartPhoneModel_deduct_from_stock variant_deduct self qty
           [''product_code'' \<mapsto> Some c] db = Inr db'"
  from ok run have "variant_deduct v qty db = Inr db'" by simp
  with frame have "stock_only v db db'" by (simp add: hook_frame_def)
  then have
    l: "list_all2
          (\<lambda>w w'. if variant_id w = variant_id v then w' = w\<lparr>quantity := quantity w'\<rparr>
                   else w' = w)
          (variants db) (variants db')"
    and ci: "cart_items db' = cart_items db"
    by (simp_all add: stock_only_def)
  from ci show "cart_items db' = cart_items db" .
  show "list_all2
          (\<lambda>w w'. if product_code w = c then w' = w\<lparr>quantity := quantity w'\<rparr> else w' = w)
          (variants db) (variants db')"
    by (rule list_all2_cong_left[OF l]) (simp add: same)
qed

theorem deduct_from_stock_frame_witness:
  "valid_database shop_db \<and> variant_32 \<in> set (variants_of phone shop_db) \<and>
   product_code variant_32 = ''sp-32'' \<and> hook_frame lower_quantity \<and>
   SmartPhoneModel_deduct_from_stock lower_quantity phone 3 [''product_code'' \<mapsto> Some ''sp-32'']
       shop_db =
     Inr (shop_db\<lparr>variants := [variant_16, variant_32\<lparr>quantity := 1\<rparr>, variant_64]\<rparr>)"
proof -
  let ?db' = "shop_db\<lparr>variants := [variant_16, variant_32\<lparr>quantity := 1\<rparr>, variant_64]\<rparr>"
  have mem: "variant_32 \<in> set (variants_of phone shop_db)"
    by (simp add: sample_defs)
  have code: "product_code variant_32 = ''sp-32''"
    by (simp add: variant_32_def)
  have hook: "lower_quantity variant_32 3 shop_db = Inr ?db'"
    by (simp add: lower_quantity_def sample_defs)
  from deduct_from_stock_frame [OF valid_shop_db mem code, of lower_quantity 3]
  have "SmartPhoneModel_deduct_from_stock lower_quantity phone 3
      [''product_code'' \<mapsto> Some ''sp-32''] shop_db = lower_quantity variant_32 3 shop_db"
    by (rule conjunct1)
  with hook have "SmartPhoneModel_deduct_from_stock lower_quantity phone 3
      [''product_code'' \<mapsto> Some ''sp-32''] shop_db = Inr ?db'" by simp
  with valid_shop_db mem code lower_quantity_frame show ?thesis by simp
qed

section \<open>Uniqueness of product codes\<close>

lemma filter_key_le_one:
  "distinct (map f xs) \<Longrightarrow> length (filter (\<lambda>x. f x = y) xs) \<le> 1"
proof (induction xs)
  case Nil then show ?case by simp
next
  case (Cons x xs)
  show ?case
  proof (cases "f x = y")
    case True
    with Cons.prems have "\<forall>w\<in>set xs. f w \<noteq> y" by (auto simp: image_iff)
    then have "filter (\<lambda>x. f x = y) xs = []" by (simp add: filter_empty_conv)
    with True show ?thesis by simp
  next
    case False
    with Cons show ?thesis by simp
  qed
qed

lemma column_ok_distinct:
  assumes "column_ok rows c" and "unique c" and "\<not> null_allowed c"
  shows "distinct (column_values (column_name c) rows)"
proof -
  from assms have d: "distinct (filter (\<lambda>x. x \<noteq> Null) (column_values (column_name c) rows))"
    and n: "Null \<notin> set (column_values (column_name c) rows)"
    by (simp_all add: column_ok_def)
  from n have "filter (\<lambda>x. x \<noteq> Null) (column_values (column_name c) rows) =
      column_values (column_name c) rows"
    by (intro filter_True) auto
  with d show ?thesis by simp
qed

text \<open>
  Claim C6. The migration declares \<^verbatim>\<open>product_code\<close> unique in the tables
  \<^verbatim>\<open>SmartCard\<close>, \<^verbatim>\<open>SmartPhoneVariant\<close> and \<^verbatim>\<open>Commodity\<close> (and not in
  \<^verbatim>\<open>CartItem\<close>). In every state that is valid for the schema no two rows of one of
  these tables share a product code, so a lookup by product code finds at most one row.
\<close>

theorem product_code_unique:
  assumes "valid_state operations st"
    and "name \<in> {''SmartCard'', ''SmartPhoneVariant'', ''Commodity''}"
  shows "map (\<lambda>(name, columns).
              (name, map unique (filter (\<lambda>c. column_name c = ''product_code'') columns)))
           operations =
           [(''SmartCard'', [True]), (''CartItem'', [False]),
            (''SmartPhoneVariant'', [True]), (''Commodity'', [True])] \<and>
         distinct (column_values ''product_code'' (st name)) \<and>
         (\<forall>code. length (filter (\<lambda>r. r ''product_code'' = code) (st name)) \<le> 1)"
proof -
  let ?c = "(col ''product_code'' CharField)\<lparr>unique := True\<rparr>"
  have props: "unique ?c" "\<not> null_allowed ?c" "column_name ?c = ''product_code''"
    by (simp_all add: col_def)
  from assms(1) have
    "list_all (column_ok (st ''SmartCard'')) SmartCard_columns"
    "list_all (column_ok (st ''SmartPhoneVariant'')) SmartPhoneVariant_columns"
    "list_all (column_ok (st ''Commodity'')) Commodity_columns"
    by (simp_all add: valid_state_def operations_def)
  then have "column_ok (st ''SmartCard'') ?c" "column_ok (st ''SmartPhoneVariant'') ?c"
    "column_ok (st ''Commodity'') ?c"
    by (simp_all add: SmartCard_columns_def SmartPhoneVariant_columns_def Commodity_columns_def)
  with assms(2) have "column_ok (st name) ?c" by auto
  from column_ok_distinct[OF this props(1,2)]
  have d: "distinct (column_values ''product_code'' (st name))" by (simp only: props(3))
  then have "distinct (map (\<lambda>r. r ''product_code'') (st name))"
    by (simp add: column_values_def)
  then have "\<forall>code. length (filter (\<lambda>r. r ''product_code'' = code) (st name)) \<le> 1"
    by (intro allI filter_key_le_one)
  moreover have "map (\<lambda>(name, columns).
              (name, map unique (filter (\<lambda>c. column_name c = ''product_code'') columns)))
           operations =
           [(''SmartCard'', [True]), (''CartItem'', [False]),
            (''SmartPhoneVariant'', [True]), (''Commodity'', [True])]"
    by (simp add: operations_def SmartCard_columns_def CartItem_columns_def
        SmartPhoneVariant_columns_def Commodity_columns_def col_def)
  ultimately show ?thesis using d by simp
qed

theorem product_code_unique_witness:
  "valid_state operations (database_tables shop_db) \<and>
   column_values ''product_code'' (database_tables shop_db ''SmartPhoneVariant'') =
     [TextV ''sp-16'', TextV ''sp-32'', TextV ''sp-64''] \<and>
   distinct (column_values ''product_code'' (database_tables shop_db ''SmartPhoneVariant''))"
proof -
  have v: "valid_state operations (database_tables shop_db)"
    using valid_shop_db by (simp only: valid_database_def)
  have n: "''SmartPhoneVariant'' \<in> {''SmartCard'', ''SmartPhoneVariant'', ''Commodity''}"
    by simp
  have d: "distinct (column_values ''product_code'' (database_tables shop_db ''SmartPhoneVariant''))"
    using product_code_unique [OF v n] by (elim conjE)
  have c: "column_values ''product_code'' (database_tables shop_db ''SmartPhoneVariant'') =
     [TextV ''sp-16'', TextV ''sp-32'', TextV ''sp-64'']"
    by (simp add: column_values_def database_tables_def variant_row_def shop_db_def
        variant_16_def variant_32_def variant_64_def)
  from v c d show ?thesis by simp
qed

end
